theory Spec2Isabelle
  imports Main "HOL-Library.Word"
begin

unbundle bit_operations_syntax

section \<open>cephfs-mirror: the state of PeerReplayer (PeerReplayer.h)\<close>

text \<open>
  The header keeps, per peer, a registry of the directories being replayed, a table of
  per-directory statistics, and a pool of replayer threads. The model is a state record
  with the same members; every member function is a function from the state (and its
  arguments) to a result. \<open>std::map::at\<close> throws \<open>std::out_of_range\<close> on a missing
  key: that is the only exception raised in the header, and it is a value here.
\<close>

datatype error = Out_of_range

type_synonym uint64_t = "64 word"

text \<open>
  \<open>ceph::coarse_mono_time\<close> is a point of a monotonic clock: a tick count, with
  \<open>clock::zero()\<close> the count 0. A \<open>double\<close> is only ever stored by this header; it is carried
  as its 64-bit pattern. A pointer is the address of the object it points to.
\<close>

type_synonym time = nat
type_synonym double = "64 word"
type_synonym addr = nat

definition clock_zero :: time where
  "clock_zero = 0"

subsection \<open>SnapshotReplayerThread\<close>

text \<open>
  The back pointer \<open>m_peer_replayer\<close> is set once by the constructor and never read by the
  functions below, so the thread object is its private flag \<open>canceled\<close>.
\<close>

record SnapshotReplayerThread =
  canceled :: bool

definition SnapshotReplayerThread_new :: SnapshotReplayerThread where
  "SnapshotReplayerThread_new = \<lparr>canceled = False\<rparr>"

definition cancel :: "SnapshotReplayerThread \<Rightarrow> SnapshotReplayerThread" where
  "cancel t = t\<lparr>canceled := True\<rparr>"

definition is_canceled :: "SnapshotReplayerThread \<Rightarrow> bool" where
  "is_canceled t = canceled t"

subsection \<open>DirRegistry, SyncEntry, SnapSyncStat\<close>

record DirRegistry =
  fd :: int
  replayer :: addr

text \<open>
  Modelled from the spec: \<open>struct ceph_statx\<close> is not defined in PeerReplayer.h. The spec's
  tree entry carries "metadata (type, size, mode, timestamps, ownership)"; the record
  keeps the mode (16 bits, the file type in its top four bits) and the other metadata.
\<close>

record ceph_statx =
  stx_mode :: "16 word"
  stx_uid :: "32 word"
  stx_gid :: "32 word"
  stx_size :: uint64_t
  stx_mtime :: time

text \<open>
  Modelled from the spec: the macro \<open>S_ISDIR\<close> is not defined in PeerReplayer.h. The spec
  derives \<open>is_directory()\<close> "solely from the metadata's type bits"; \<open>S_ISDIR\<close> is the POSIX
  test \<open>(mode & S_IFMT) == S_IFDIR\<close>, with the mask \<open>S_IFMT = 0170000\<close> of the type bits and
  the directory type \<open>S_IFDIR = 0040000\<close>.
\<close>

definition S_IFMT :: "16 word" where
  "S_IFMT = 0xF000"

text \<open>Modelled from the spec: the type bits of a directory, \<open>0040000\<close> (see \<open>S_IFMT\<close>).\<close>

definition S_IFDIR :: "16 word" where
  "S_IFDIR = 0x4000"

text \<open>Modelled from the spec: the macro \<open>S_ISDIR\<close> (see \<open>S_IFMT\<close>).\<close>

definition S_ISDIR :: "16 word \<Rightarrow> bool" where
  "S_ISDIR m = (m AND S_IFMT = S_IFDIR)"

record SyncEntry =
  epath :: string
  dirp :: addr
  stx :: ceph_statx

text \<open>
  The two constructors. The first leaves \<open>dirp\<close> uninitialised: its value is whatever the
  memory holds, the last argument here.
\<close>

definition SyncEntry_path_stx :: "string \<Rightarrow> ceph_statx \<Rightarrow> addr \<Rightarrow> SyncEntry" where
  "SyncEntry_path_stx path stx0 indeterminate =
     \<lparr>epath = path, dirp = indeterminate, stx = stx0\<rparr>"

definition SyncEntry_path_dirp_stx :: "string \<Rightarrow> addr \<Rightarrow> ceph_statx \<Rightarrow> SyncEntry" where
  "SyncEntry_path_dirp_stx path dirp0 stx0 = \<lparr>epath = path, dirp = dirp0, stx = stx0\<rparr>"

definition is_directory :: "SyncEntry \<Rightarrow> bool" where
  "is_directory e = S_ISDIR (stx_mode (stx e))"

record SnapSyncStat =
  nr_failures :: uint64_t
  last_failed :: "time option"
  failed :: bool
  last_synced_snap :: "(uint64_t \<times> string) option"
  current_syncing_snap :: "(uint64_t \<times> string) option"
  synced_snap_count :: uint64_t
  deleted_snap_count :: uint64_t
  renamed_snap_count :: uint64_t
  last_synced :: time
  last_sync_duration :: "double option"

text \<open>The default member initialisers of \<open>SnapSyncStat\<close>.\<close>

definition SnapSyncStat_new :: SnapSyncStat where
  "SnapSyncStat_new =
     \<lparr>nr_failures = 0, last_failed = None, failed = False,
      last_synced_snap = None, current_syncing_snap = None,
      synced_snap_count = 0, deleted_snap_count = 0, renamed_snap_count = 0,
      last_synced = clock_zero, last_sync_duration = None\<rparr>"

subsection \<open>PeerReplayer\<close>

text \<open>
  Modelled from the spec: class \<open>FSMirror\<close> is only forward-declared in PeerReplayer.h.
  The spec consumes blocklist detection "as a boolean oracle" (\<open>is_fenced() -> bool\<close>), so
  the object behind \<open>m_fs_mirror\<close> is the answer its \<open>is_blocklisted()\<close> gives.
\<close>

record FSMirror =
  is_blocklisted :: bool

text \<open>
  \<open>m_replayers\<close> owns the thread objects; \<open>DirRegistry::replayer\<close> is a raw pointer to one
  of them. The field \<open>thread_heap\<close> is the store those pointers point into: it gives the
  thread object at each address. Dereferencing a pointer has no failing branch in the
  source, so the store is total. The mutex, the condition variable, the mounts and the
  admin socket hook hold no data that the functions below read or write.
\<close>

record PeerReplayer =
  m_fs_mirror :: FSMirror
  m_registered :: "string \<rightharpoonup> DirRegistry"
  m_directories :: "string list"
  m_snap_sync_stats :: "string \<rightharpoonup> SnapSyncStat"
  m_stopping :: bool
  thread_heap :: "addr \<Rightarrow> SnapshotReplayerThread"

definition is_stopping :: "PeerReplayer \<Rightarrow> bool" where
  "is_stopping s = m_stopping s"

subsection \<open>The statistics mutators\<close>

text \<open>
  Every mutator binds \<open>auto &sync_stat = m_snap_sync_stats.at(dir_path)\<close> before its first
  write and then assigns to fields of \<open>sync_stat\<close>. \<open>at_sync_stat s dir_path f\<close> is that
  pattern: the lookup throws before anything is written, otherwise the entry is replaced
  by \<open>f\<close> of it. The counters are \<open>uint64_t\<close>, so \<open>++\<close> is addition modulo \<open>2^64\<close>. The
  functions whose source name starts with an underscore (they expect the caller to hold
  \<open>m_lock\<close>) carry the prefix \<open>u_\<close>; the \<open>scoped_lock\<close> of the others is taken and released
  inside the call and leaves no trace in the state. The clock reading \<open>clock::now()\<close> and
  the configured value of \<open>cephfs_mirror_max_consecutive_failures_per_directory\<close> are
  arguments.
\<close>

definition at_sync_stat ::
  "PeerReplayer \<Rightarrow> string \<Rightarrow> (SnapSyncStat \<Rightarrow> SnapSyncStat) \<Rightarrow> error + PeerReplayer" where
  "at_sync_stat s dir_path f =
     (case m_snap_sync_stats s dir_path of
        None \<Rightarrow> Inl Out_of_range
      | Some sync_stat \<Rightarrow>
          Inr (s\<lparr>m_snap_sync_stats := (m_snap_sync_stats s)(dir_path \<mapsto> f sync_stat)\<rparr>))"

definition u_inc_failed_count ::
  "uint64_t \<Rightarrow> time \<Rightarrow> PeerReplayer \<Rightarrow> string \<Rightarrow> error + PeerReplayer" where
  "u_inc_failed_count max_failures now s dir_path =
     at_sync_stat s dir_path (\<lambda>sync_stat.
       let st1 = sync_stat\<lparr>last_failed := Some now\<rparr>;
           st2 = st1\<lparr>nr_failures := nr_failures st1 + 1\<rparr>
       in if nr_failures st2 \<ge> max_failures then st2\<lparr>failed := True\<rparr> else st2)"

definition u_reset_failed_count :: "PeerReplayer \<Rightarrow> string \<Rightarrow> error + PeerReplayer" where
  "u_reset_failed_count s dir_path =
     at_sync_stat s dir_path (\<lambda>sync_stat.
       sync_stat\<lparr>nr_failures := 0, failed := False, last_failed := None\<rparr>)"

definition u_set_last_synced_snap ::
  "PeerReplayer \<Rightarrow> string \<Rightarrow> uint64_t \<Rightarrow> string \<Rightarrow> error + PeerReplayer" where
  "u_set_last_synced_snap s dir_path snap_id snap_name =
     at_sync_stat s dir_path (\<lambda>sync_stat.
       sync_stat\<lparr>last_synced_snap := Some (snap_id, snap_name),
                 current_syncing_snap := None\<rparr>)"

definition set_last_synced_snap ::
  "PeerReplayer \<Rightarrow> string \<Rightarrow> uint64_t \<Rightarrow> string \<Rightarrow> error + PeerReplayer" where
  "set_last_synced_snap s dir_path snap_id snap_name =
     u_set_last_synced_snap s dir_path snap_id snap_name"

definition set_current_syncing_snap ::
  "PeerReplayer \<Rightarrow> string \<Rightarrow> uint64_t \<Rightarrow> string \<Rightarrow> error + PeerReplayer" where
  "set_current_syncing_snap s dir_path snap_id snap_name =
     at_sync_stat s dir_path (\<lambda>sync_stat.
       sync_stat\<lparr>current_syncing_snap := Some (snap_id, snap_name)\<rparr>)"

definition clear_current_syncing_snap :: "PeerReplayer \<Rightarrow> string \<Rightarrow> error + PeerReplayer" where
  "clear_current_syncing_snap s dir_path =
     at_sync_stat s dir_path (\<lambda>sync_stat. sync_stat\<lparr>current_syncing_snap := None\<rparr>)"

definition inc_deleted_snap :: "PeerReplayer \<Rightarrow> string \<Rightarrow> error + PeerReplayer" where
  "inc_deleted_snap s dir_path =
     at_sync_stat s dir_path (\<lambda>sync_stat.
       sync_stat\<lparr>deleted_snap_count := deleted_snap_count sync_stat + 1\<rparr>)"

definition inc_renamed_snap :: "PeerReplayer \<Rightarrow> string \<Rightarrow> error + PeerReplayer" where
  "inc_renamed_snap s dir_path =
     at_sync_stat s dir_path (\<lambda>sync_stat.
       sync_stat\<lparr>renamed_snap_count := renamed_snap_count sync_stat + 1\<rparr>)"

definition set_last_synced_stat ::
  "time \<Rightarrow> PeerReplayer \<Rightarrow> string \<Rightarrow> uint64_t \<Rightarrow> string \<Rightarrow> double \<Rightarrow> error + PeerReplayer" where
  "set_last_synced_stat now s dir_path snap_id snap_name duration =
     (case u_set_last_synced_snap s dir_path snap_id snap_name of
        Inl e \<Rightarrow> Inl e
      | Inr s1 \<Rightarrow>
          at_sync_stat s1 dir_path (\<lambda>sync_stat.
            sync_stat\<lparr>last_synced := now,
                      last_sync_duration := Some duration,
                      synced_snap_count := synced_snap_count sync_stat + 1\<rparr>))"

text \<open>The entry of a directory in the state a mutator returns; none after an exception.\<close>

definition stat_of :: "error + PeerReplayer \<Rightarrow> string \<Rightarrow> SnapSyncStat option" where
  "stat_of r dir_path = (case r of Inl e \<Rightarrow> None | Inr s \<Rightarrow> m_snap_sync_stats s dir_path)"

text \<open>Sequencing of two calls: an exception of the first skips the second.\<close>

definition and_then :: "error + 'a \<Rightarrow> ('a \<Rightarrow> error + 'b) \<Rightarrow> error + 'b" where
  "and_then r f = (case r of Inl e \<Rightarrow> Inl e | Inr x \<Rightarrow> f x)"

subsection \<open>should_backoff\<close>

text \<open>
  Modelled from the spec: the errno macros \<open>EBLOCKLISTED\<close>, \<open>EINPROGRESS\<close> and \<open>ECANCELED\<close>
  are not defined in PeerReplayer.h. The spec asks for the fencing reason to be "a
  distinct error code distinguishable from shutdown". The values are the one the comment
  in \<open>should_backoff\<close> gives (\<open>EBLOCKLISTED\<close> is \<open>ESHUTDOWN\<close>, 108) and the ones of Linux's
  \<open>errno.h\<close> for the other two (115 and 125).
\<close>

definition ESHUTDOWN :: int where
  "ESHUTDOWN = 108"

text \<open>
  Modelled from the spec: \<open>EBLOCKLISTED\<close> is not defined in PeerReplayer.h; "ceph defines
  EBLOCKLISTED to ESHUTDOWN (108)", says the comment in \<open>should_backoff\<close>.
\<close>

definition EBLOCKLISTED :: int where
  "EBLOCKLISTED = ESHUTDOWN"

text \<open>
  Modelled from the spec: \<open>EINPROGRESS\<close> is not defined in PeerReplayer.h; 115 in Linux's
  \<open>errno.h\<close>.
\<close>

definition EINPROGRESS :: int where
  "EINPROGRESS = 115"

text \<open>
  Modelled from the spec: \<open>ECANCELED\<close> is not defined in PeerReplayer.h; 125 in Linux's
  \<open>errno.h\<close>.
\<close>

definition ECANCELED :: int where
  "ECANCELED = 125"

text \<open>
  What \<open>should_backoff\<close> touches, in the order it touches it: the call of
  \<open>m_fs_mirror->is_blocklisted()\<close>, the construction of the \<open>scoped_lock\<close> on \<open>m_lock\<close>, the
  call of \<open>is_stopping()\<close>, the lookup \<open>m_registered.at(dir_path)\<close>, the call of
  \<open>is_canceled()\<close> on the thread at an address, and the release of the lock when the
  scope is left (by \<open>return\<close> or by the exception).
\<close>

datatype access =
    Call_is_blocklisted
  | Lock_m_lock
  | Call_is_stopping
  | Registered_at string
  | Call_is_canceled addr
  | Unlock_m_lock

text \<open>
  The result is the list of accesses together with either the exception, or the returned
  boolean paired with the value stored through \<open>retval\<close> (a C \<open>int\<close>; the values stored
  are 0 and the three negated constants). When the lookup throws, nothing is stored.
\<close>

definition should_backoff ::
  "PeerReplayer \<Rightarrow> string \<Rightarrow> access list \<times> (error + bool \<times> int)" where
  "should_backoff s dir_path =
     (if is_blocklisted (m_fs_mirror s) then
        ([Call_is_blocklisted], Inr (True, - EBLOCKLISTED))
      else if is_stopping s then
        ([Call_is_blocklisted, Lock_m_lock, Call_is_stopping, Unlock_m_lock],
         Inr (True, - EINPROGRESS))
      else
        (case m_registered s dir_path of
           None \<Rightarrow>
             ([Call_is_blocklisted, Lock_m_lock, Call_is_stopping,
               Registered_at dir_path, Unlock_m_lock],
              Inl Out_of_range)
         | Some dr \<Rightarrow>
             if is_canceled (thread_heap s (replayer dr)) then
               ([Call_is_blocklisted, Lock_m_lock, Call_is_stopping,
                 Registered_at dir_path, Call_is_canceled (replayer dr), Unlock_m_lock],
                Inr (True, - ECANCELED))
             else
               ([Call_is_blocklisted, Lock_m_lock, Call_is_stopping,
                 Registered_at dir_path, Call_is_canceled (replayer dr), Unlock_m_lock],
                Inr (False, 0))))"

text \<open>The position of an access in the body of \<open>should_backoff\<close>.\<close>

fun access_rank :: "access \<Rightarrow> nat" where
  "access_rank Call_is_blocklisted = 0"
| "access_rank Lock_m_lock = 1"
| "access_rank Call_is_stopping = 2"
| "access_rank (Registered_at d) = 3"
| "access_rank (Call_is_canceled a) = 4"
| "access_rank Unlock_m_lock = 5"

text \<open>
  The accesses that consult the registry: the lookup of the entry, and the call through
  the pointer the entry holds.
\<close>

fun is_registry_access :: "access \<Rightarrow> bool" where
  "is_registry_access (Registered_at d) = True"
| "is_registry_access (Call_is_canceled a) = True"
| "is_registry_access x = False"

subsection \<open>The members as operations\<close>

text \<open>
  One constructor for each statistics mutator of the header, with the arguments of the
  call other than \<open>dir_path\<close>; \<open>call_stat_op\<close> is the call.
\<close>

datatype stat_op =
    U_inc_failed_count uint64_t time
  | U_reset_failed_count
  | U_set_last_synced_snap uint64_t string
  | Set_last_synced_snap uint64_t string
  | Set_current_syncing_snap uint64_t string
  | Clear_current_syncing_snap
  | Inc_deleted_snap
  | Inc_renamed_snap
  | Set_last_synced_stat time uint64_t string double

fun call_stat_op :: "stat_op \<Rightarrow> PeerReplayer \<Rightarrow> string \<Rightarrow> error + PeerReplayer" where
  "call_stat_op (U_inc_failed_count max_failures now) s d =
     u_inc_failed_count max_failures now s d"
| "call_stat_op U_reset_failed_count s d = u_reset_failed_count s d"
| "call_stat_op (U_set_last_synced_snap snap_id snap_name) s d =
     u_set_last_synced_snap s d snap_id snap_name"
| "call_stat_op (Set_last_synced_snap snap_id snap_name) s d =
     set_last_synced_snap s d snap_id snap_name"
| "call_stat_op (Set_current_syncing_snap snap_id snap_name) s d =
     set_current_syncing_snap s d snap_id snap_name"
| "call_stat_op Clear_current_syncing_snap s d = clear_current_syncing_snap s d"
| "call_stat_op Inc_deleted_snap s d = inc_deleted_snap s d"
| "call_stat_op Inc_renamed_snap s d = inc_renamed_snap s d"
| "call_stat_op (Set_last_synced_stat now snap_id snap_name duration) s d =
     set_last_synced_stat now s d snap_id snap_name duration"

text \<open>\<open>replayer->cancel()\<close> through a pointer: the thread at that address is canceled.\<close>

definition cancel_at :: "PeerReplayer \<Rightarrow> addr \<Rightarrow> PeerReplayer" where
  "cancel_at s t = s\<lparr>thread_heap := (thread_heap s)(t := cancel (thread_heap s t))\<rparr>"

text \<open>
  A step of the program on a \<open>PeerReplayer\<close> whose threads stay alive. \<open>canceled\<close> is a
  private member of \<open>SnapshotReplayerThread\<close>, and the class has two functions that touch
  it: \<open>cancel()\<close> writes it, \<open>is_canceled()\<close> reads it. Every other member function of
  \<open>PeerReplayer\<close> (those whose bodies are not in the header included) can change the
  members of \<open>PeerReplayer\<close> in any way, but reaches a thread's flag only through these
  two: \<open>Other_member f\<close> is such a function, \<open>f\<close> being what it does to the other members.
  An exception leaves the state as it was.
\<close>

datatype operation =
    Stat_op stat_op string
  | Cancel addr
  | Is_canceled addr
  | Should_backoff string
  | Other_member "PeerReplayer \<Rightarrow> PeerReplayer"

fun exec :: "operation \<Rightarrow> PeerReplayer \<Rightarrow> PeerReplayer" where
  "exec (Stat_op opr d) s = (case call_stat_op opr s d of Inl e \<Rightarrow> s | Inr s' \<Rightarrow> s')"
| "exec (Cancel t) s = cancel_at s t"
| "exec (Is_canceled t) s = s"
| "exec (Should_backoff d) s = s"
| "exec (Other_member f) s = (f s)\<lparr>thread_heap := thread_heap s\<rparr>"

fun run :: "operation list \<Rightarrow> PeerReplayer \<Rightarrow> PeerReplayer" where
  "run [] s = s"
| "run (opn # ops) s = run ops (exec opn s)"

subsection \<open>Snapshot maps, the snapshot diff and the replay order\<close>

text \<open>
  Modelled from the spec: \<open>build_snap_map\<close>, \<open>do_sync_snaps\<close>, \<open>propagate_snap_deletes\<close>,
  \<open>propagate_snap_renames\<close> and \<open>synchronize\<close> are declared in PeerReplayer.h and defined
  elsewhere. The definitions of this subsection follow sections 3, 4.3, 4.4, 4.6 and 7 of
  the spec.

  A snapshot map (\<open>std::map<uint64_t, std::string>\<close> in the declarations) is an "ordered
  mapping from monotonically increasing snapshot identifier to snapshot name": the list
  of its entries in ascending order of identifier, each identifier once.
\<close>

type_synonym SnapshotMap = "(uint64_t \<times> string) list"

text \<open>
  Modelled from the spec: the order of a snapshot map, "ordered mapping from monotonically
  increasing snapshot identifier to snapshot name"; \<open>build_snap_map\<close>, which produces the
  maps, is not defined in PeerReplayer.h.
\<close>

definition ordered_snap_map :: "SnapshotMap \<Rightarrow> bool" where
  "ordered_snap_map m = sorted_wrt (<) (map fst m)"

text \<open>
  Modelled from the spec: "Deletions: remote snapshot names with no matching identifier in
  the local map", the argument of \<open>propagate_snap_deletes\<close>.
\<close>

definition snaps_deleted :: "SnapshotMap \<Rightarrow> SnapshotMap \<Rightarrow> string set" where
  "snaps_deleted local_map remote_map =
     set (map snd
       (filter (\<lambda>(snap_id, snap_name). map_of local_map snap_id = None) remote_map))"

text \<open>
  Modelled from the spec: "Renames: identifiers present in both maps but with different
  names", as pairs \<open>(old_name, new_name)\<close>: the remote name first, the local name second.
  This is the argument of \<open>propagate_snap_renames\<close>.
\<close>

definition snaps_renamed :: "SnapshotMap \<Rightarrow> SnapshotMap \<Rightarrow> (string \<times> string) set" where
  "snaps_renamed local_map remote_map =
     set (concat (map (\<lambda>(snap_id, snap_name).
            case map_of local_map snap_id of
              None \<Rightarrow> []
            | Some local_name \<Rightarrow>
                if local_name \<noteq> snap_name then [(snap_name, local_name)] else [])
          remote_map))"












subsection \<open>Example states\<close>

definition example_stat :: SnapSyncStat where
  "example_stat = SnapSyncStat_new\<lparr>nr_failures := 2, failed := True, last_failed := Some 40,
     current_syncing_snap := Some (7, ''snap7'')\<rparr>"

definition example_state :: PeerReplayer where
  "example_state =
     \<lparr>m_fs_mirror = \<lparr>is_blocklisted = False\<rparr>,
      m_registered = [''/a'' \<mapsto> \<lparr>fd = 3, replayer = 1\<rparr>, ''/b'' \<mapsto> \<lparr>fd = 4, replayer = 2\<rparr>],
      m_directories = [''/a'', ''/b'', ''/c''],
      m_snap_sync_stats = [''/a'' \<mapsto> example_stat, ''/b'' \<mapsto> SnapSyncStat_new],
      m_stopping = False,
      thread_heap = (\<lambda>a. SnapshotReplayerThread_new)\<rparr>"

definition example_dir_mode :: "16 word" where
  "example_dir_mode = 0x41ED"

definition example_file_mode :: "16 word" where
  "example_file_mode = 0x81A4"

definition example_socket_mode :: "16 word" where
  "example_socket_mode = 0xC1ED"

definition example_entry :: "16 word \<Rightarrow> SyncEntry" where
  "example_entry m =
     \<lparr>epath = ''x/y'', dirp = 0,
      stx = \<lparr>stx_mode = m, stx_uid = 0, stx_gid = 0, stx_size = 0, stx_mtime = 0\<rparr>\<rparr>"






definition example_register :: "PeerReplayer \<Rightarrow> PeerReplayer" where
  "example_register s =
     s\<lparr>m_registered := (m_registered s)(''/c'' \<mapsto> \<lparr>fd = 9, replayer = 1\<rparr>),
       thread_heap := (\<lambda>a. SnapshotReplayerThread_new)\<rparr>"

definition example_ops :: "operation list" where
  "example_ops =
     [Stat_op Inc_deleted_snap ''/a'', Should_backoff ''/a'', Other_member example_register,
      Stat_op U_reset_failed_count ''/nowhere'', Is_canceled 1, Cancel 1]"

section \<open>Properties\<close>

subsection \<open>Helper facts about the statistics mutators\<close>

lemma at_sync_stat_frame:
  "at_sync_stat s d f = Inr s' \<Longrightarrow>
   \<exists>st. m_snap_sync_stats s d = Some st
      \<and> s' = s\<lparr>m_snap_sync_stats := (m_snap_sync_stats s)(d \<mapsto> f st)\<rparr>"
  by (auto simp: at_sync_stat_def split: option.splits)

lemma inc_failed_Inr:
  "m_snap_sync_stats s d = Some st \<Longrightarrow>
   u_inc_failed_count cap now s d =
     Inr (s\<lparr>m_snap_sync_stats := (m_snap_sync_stats s)(d \<mapsto>
        st\<lparr>last_failed := Some now, nr_failures := nr_failures st + 1,
           failed := (if cap \<le> nr_failures st + 1 then True else failed st)\<rparr>)\<rparr>)"
  by (simp add: u_inc_failed_count_def at_sync_stat_def Let_def)

lemma inc_failed_stat:
  "m_snap_sync_stats s d = Some st \<Longrightarrow>
   stat_of (u_inc_failed_count cap now s d) d =
     Some (st\<lparr>last_failed := Some now, nr_failures := nr_failures st + 1,
              failed := (if cap \<le> nr_failures st + 1 then True else failed st)\<rparr>)"
  by (simp add: inc_failed_Inr stat_of_def)

lemma reset_failed_stat:
  "m_snap_sync_stats s d = Some st \<Longrightarrow>
   stat_of (u_reset_failed_count s d) d =
     Some (st\<lparr>nr_failures := 0, failed := False, last_failed := None\<rparr>)"
  by (simp add: u_reset_failed_count_def at_sync_stat_def stat_of_def)

lemma set_last_synced_stat_Inr:
  "m_snap_sync_stats s d = Some st \<Longrightarrow>
   set_last_synced_stat now s d snap_id snap_name duration =
     Inr (s\<lparr>m_snap_sync_stats := (m_snap_sync_stats s)(d \<mapsto>
        st\<lparr>last_synced_snap := Some (snap_id, snap_name), current_syncing_snap := None,
           last_synced := now, last_sync_duration := Some duration,
           synced_snap_count := synced_snap_count st + 1\<rparr>)\<rparr>)"
  by (simp add: set_last_synced_stat_def u_set_last_synced_snap_def at_sync_stat_def)

lemma unat_succ: "(w :: uint64_t) \<noteq> - 1 \<Longrightarrow> unat (w + 1) = unat w + 1"
proof -
  assume "w \<noteq> - 1"
  then have "1 + w \<noteq> 0"
    by (simp add: add_eq_0_iff)
  from unatSuc [OF this] show ?thesis
    by (simp add: add.commute)
qed

lemma cap_invariant_step:
  fixes cap n :: uint64_t
  assumes "n \<noteq> - 1" and "\<not> cap \<le> n + 1"
  shows "\<not> cap \<le> n"
proof -
  from assms(1) have "unat (n + 1) = unat n + 1"
    by (rule unat_succ)
  with assms(2) show ?thesis
    by (simp add: word_le_nat_alt)
qed

lemma call_stat_op_shape:
  "call_stat_op opr s d = Inr s' \<Longrightarrow>
   \<exists>st st'. m_snap_sync_stats s d = Some st
      \<and> s' = s\<lparr>m_snap_sync_stats := (m_snap_sync_stats s)(d \<mapsto> st')\<rparr>"
proof (cases opr)
  case (Set_last_synced_stat now snap_id snap_name duration)
  assume r: "call_stat_op opr s d = Inr s'"
  have "\<exists>st. m_snap_sync_stats s d = Some st"
  proof (cases "m_snap_sync_stats s d")
    case None
    with r Set_last_synced_stat show ?thesis
      by (simp add: set_last_synced_stat_def u_set_last_synced_snap_def at_sync_stat_def)
  next
    case (Some st)
    then show ?thesis by simp
  qed
  then obtain st where st: "m_snap_sync_stats s d = Some st" ..
  from r Set_last_synced_stat set_last_synced_stat_Inr [OF st] show ?thesis
    using st by auto
qed (auto simp: u_inc_failed_count_def u_reset_failed_count_def u_set_last_synced_snap_def
       set_last_synced_snap_def set_current_syncing_snap_def clear_current_syncing_snap_def
       inc_deleted_snap_def inc_renamed_snap_def dest!: at_sync_stat_frame)

subsection \<open>should_backoff\<close>

text \<open>
  C1. \<open>should_backoff(dir_path)\<close> checks in a fixed order. (1) When the session is
  blocklisted it returns true with \<open>-EBLOCKLISTED\<close>, and the call of \<open>is_blocklisted()\<close> is
  all it does: the lock is not taken and the registry is not consulted, so the result is
  the same for every directory and every registry. (2) Otherwise, when the replayer is
  stopping, it returns true with \<open>-EINPROGRESS\<close>. (3) Otherwise, when the thread registered
  for \<open>dir_path\<close> is canceled, it returns true with \<open>-ECANCELED\<close>; when it is not, it returns
  false with 0. In every run the accesses happen in the order of the body, each at most
  once, starting with \<open>is_blocklisted()\<close>.
\<close>

theorem C1_should_backoff_order:
  "(is_blocklisted (m_fs_mirror s) \<longrightarrow>
      should_backoff s dir_path = ([Call_is_blocklisted], Inr (True, - EBLOCKLISTED))
      \<and> should_backoff (s\<lparr>m_registered := registry\<rparr>) other_dir = should_backoff s dir_path)
 \<and> (\<not> is_blocklisted (m_fs_mirror s) \<and> is_stopping s \<longrightarrow>
      snd (should_backoff s dir_path) = Inr (True, - EINPROGRESS)
      \<and> \<not> list_ex is_registry_access (fst (should_backoff s dir_path)))
 \<and> (\<not> is_blocklisted (m_fs_mirror s) \<and> \<not> is_stopping s
      \<and> m_registered s dir_path = Some dr \<and> is_canceled (thread_heap s (replayer dr)) \<longrightarrow>
      snd (should_backoff s dir_path) = Inr (True, - ECANCELED))
 \<and> (\<not> is_blocklisted (m_fs_mirror s) \<and> \<not> is_stopping s
      \<and> m_registered s dir_path = Some dr \<and> \<not> is_canceled (thread_heap s (replayer dr)) \<longrightarrow>
      snd (should_backoff s dir_path) = Inr (False, 0))
 \<and> sorted_wrt (<) (map access_rank (fst (should_backoff s dir_path)))
 \<and> hd (fst (should_backoff s dir_path)) = Call_is_blocklisted"
  by (simp add: should_backoff_def split: option.split)

theorem C1_witness:
  "should_backoff (example_state\<lparr>m_fs_mirror := \<lparr>is_blocklisted = True\<rparr>\<rparr>) ''/nowhere''
     = ([Call_is_blocklisted], Inr (True, - 108))
 \<and> snd (should_backoff (example_state\<lparr>m_stopping := True\<rparr>) ''/a'') = Inr (True, - 115)
 \<and> snd (should_backoff (cancel_at example_state 1) ''/a'') = Inr (True, - 125)
 \<and> snd (should_backoff (cancel_at example_state 1) ''/b'') = Inr (False, 0)"
  using
    C1_should_backoff_order [of "example_state\<lparr>m_fs_mirror := \<lparr>is_blocklisted = True\<rparr>\<rparr>"
      "''/nowhere''" "m_registered example_state" "''/nowhere''" "\<lparr>fd = 3, replayer = 1\<rparr>"]
    C1_should_backoff_order [of "example_state\<lparr>m_stopping := True\<rparr>"
      "''/a''" "m_registered example_state" "''/a''" "\<lparr>fd = 3, replayer = 1\<rparr>"]
    C1_should_backoff_order [of "cancel_at example_state 1"
      "''/a''" "m_registered example_state" "''/a''" "\<lparr>fd = 3, replayer = 1\<rparr>"]
    C1_should_backoff_order [of "cancel_at example_state 1"
      "''/b''" "m_registered example_state" "''/b''" "\<lparr>fd = 4, replayer = 2\<rparr>"]
  by (simp add: example_state_def cancel_at_def cancel_def is_canceled_def is_stopping_def
      SnapshotReplayerThread_new_def EBLOCKLISTED_def ESHUTDOWN_def EINPROGRESS_def
      ECANCELED_def)

text \<open>
  C4. The three reasons are three different codes: whatever the states and directories,
  the code returned for a blocklisted session, the code returned for a stopping replayer
  and the code returned for a canceled thread are pairwise distinct, and none of them is
  the 0 of the no-backoff answer.
\<close>

theorem C4_distinct_codes:
  assumes "is_blocklisted (m_fs_mirror s1)"
    and "\<not> is_blocklisted (m_fs_mirror s2)" and "is_stopping s2"
    and "\<not> is_blocklisted (m_fs_mirror s3)" and "\<not> is_stopping s3"
    and "m_registered s3 d3 = Some dr" and "is_canceled (thread_heap s3 (replayer dr))"
  shows "\<exists>fenced shutdown cancelled.
           snd (should_backoff s1 d1) = Inr (True, fenced)
         \<and> snd (should_backoff s2 d2) = Inr (True, shutdown)
         \<and> snd (should_backoff s3 d3) = Inr (True, cancelled)
         \<and> fenced \<noteq> shutdown \<and> fenced \<noteq> cancelled \<and> shutdown \<noteq> cancelled
         \<and> fenced \<noteq> 0 \<and> shutdown \<noteq> 0 \<and> cancelled \<noteq> 0"
  using assms
  by (simp add: should_backoff_def EBLOCKLISTED_def ESHUTDOWN_def EINPROGRESS_def ECANCELED_def)

theorem C4_witness:
  "\<exists>fenced shutdown cancelled.
     snd (should_backoff (example_state\<lparr>m_fs_mirror := \<lparr>is_blocklisted = True\<rparr>\<rparr>) ''/a'')
       = Inr (True, fenced)
   \<and> snd (should_backoff (example_state\<lparr>m_stopping := True\<rparr>) ''/a'') = Inr (True, shutdown)
   \<and> snd (should_backoff (cancel_at example_state 1) ''/a'') = Inr (True, cancelled)
   \<and> fenced \<noteq> shutdown \<and> fenced \<noteq> cancelled \<and> shutdown \<noteq> cancelled
   \<and> fenced \<noteq> 0 \<and> shutdown \<noteq> 0 \<and> cancelled \<noteq> 0"
proof (rule C4_distinct_codes [where dr = "\<lparr>fd = 3, replayer = 1\<rparr>"])
  show "is_blocklisted (m_fs_mirror (example_state\<lparr>m_fs_mirror := \<lparr>is_blocklisted = True\<rparr>\<rparr>))"
    by simp
  show "\<not> is_blocklisted (m_fs_mirror (example_state\<lparr>m_stopping := True\<rparr>))"
    by (simp add: example_state_def)
  show "is_stopping (example_state\<lparr>m_stopping := True\<rparr>)"
    by (simp add: is_stopping_def)
  show "\<not> is_blocklisted (m_fs_mirror (cancel_at example_state 1))"
    by (simp add: example_state_def cancel_at_def)
  show "\<not> is_stopping (cancel_at example_state 1)"
    by (simp add: example_state_def cancel_at_def is_stopping_def)
  show "m_registered (cancel_at example_state 1) ''/a'' = Some \<lparr>fd = 3, replayer = 1\<rparr>"
    by (simp add: example_state_def cancel_at_def)
  show "is_canceled (thread_heap (cancel_at example_state 1) (replayer \<lparr>fd = 3, replayer = 1\<rparr>))"
    by (simp add: cancel_at_def cancel_def is_canceled_def)
qed

text \<open>
  C8. The registry is consulted only after both earlier checks have answered no. When
  the session is blocklisted or the replayer is stopping, \<open>should_backoff\<close> returns true
  without a registry access, whether \<open>dir_path\<close> has a registry entry or not. When
  \<open>dir_path\<close> is registered the call returns without an exception. The call throws exactly
  when neither earlier check fires and \<open>dir_path\<close> has no registry entry, and the
  exception is the \<open>std::out_of_range\<close> of \<open>m_registered.at\<close>. The statistics table is not
  read at all.
\<close>

theorem C8_registry_lookup:
  "(is_blocklisted (m_fs_mirror s) \<or> is_stopping s \<longrightarrow>
      (\<exists>code. snd (should_backoff s dir_path) = Inr (True, code))
      \<and> \<not> list_ex is_registry_access (fst (should_backoff s dir_path)))
 \<and> (m_registered s dir_path \<noteq> None \<longrightarrow> (\<exists>r. snd (should_backoff s dir_path) = Inr r))
 \<and> (snd (should_backoff s dir_path) = Inl e \<longleftrightarrow>
      e = Out_of_range \<and> \<not> is_blocklisted (m_fs_mirror s) \<and> \<not> is_stopping s
      \<and> m_registered s dir_path = None)
 \<and> (list_ex is_registry_access (fst (should_backoff s dir_path)) \<longleftrightarrow>
      \<not> is_blocklisted (m_fs_mirror s) \<and> \<not> is_stopping s)
 \<and> should_backoff (s\<lparr>m_snap_sync_stats := stats\<rparr>) dir_path = should_backoff s dir_path"
  by (cases e) (auto simp: should_backoff_def is_stopping_def split: option.splits)

theorem C8_witness:
  "snd (should_backoff (example_state\<lparr>m_stopping := True\<rparr>) ''/nowhere'') = Inr (True, - 115)
   \<and> snd (should_backoff (example_state\<lparr>m_fs_mirror := \<lparr>is_blocklisted = True\<rparr>\<rparr>) ''/nowhere'')
       = Inr (True, - 108)
   \<and> snd (should_backoff example_state ''/a'') = Inr (False, 0)
   \<and> snd (should_backoff example_state ''/nowhere'') = Inl Out_of_range"
  using
    C8_registry_lookup [of "example_state\<lparr>m_stopping := True\<rparr>" "''/nowhere''" Out_of_range]
    C8_registry_lookup [of "example_state\<lparr>m_fs_mirror := \<lparr>is_blocklisted = True\<rparr>\<rparr>"
      "''/nowhere''" Out_of_range]
    C8_registry_lookup [of example_state "''/a''" Out_of_range]
    C8_registry_lookup [of example_state "''/nowhere''" Out_of_range]
  by (simp add: should_backoff_def example_state_def is_stopping_def is_canceled_def
      SnapshotReplayerThread_new_def EBLOCKLISTED_def ESHUTDOWN_def EINPROGRESS_def)

subsection \<open>Failure bookkeeping\<close>

text \<open>
  C2. On a directory with a statistics entry, \<open>_inc_failed_count\<close> adds one to the
  consecutive-failure counter (in \<open>uint64_t\<close>; the count itself grows by one unless the
  counter was at its maximum), stamps \<open>last_failed\<close> with the current time, and writes
  \<open>failed = true\<close> exactly when the incremented counter is at or above the cap; otherwise
  it leaves the flag as it was. So from a flag that is false, and from any entry whose
  flag says whether the counter is at or above the cap, the flag afterwards is true
  exactly when the incremented counter is at or above the cap. \<open>_reset_failed_count\<close> sets
  the counter to 0, the flag to false and \<open>last_failed\<close> to none. With the cap 3 and the
  counter at 0, three calls of \<open>_inc_failed_count\<close> in a row leave \<open>failed = true\<close>, and one
  \<open>_reset_failed_count\<close> then sets the counter to 0 and \<open>failed = false\<close>.
\<close>

theorem C2_record_failure:
  assumes "m_snap_sync_stats s dir_path = Some st"
  shows
    "(\<exists>st'. stat_of (u_inc_failed_count cap now s dir_path) dir_path = Some st'
        \<and> nr_failures st' = nr_failures st + 1
        \<and> (nr_failures st \<noteq> - 1 \<longrightarrow> unat (nr_failures st') = unat (nr_failures st) + 1)
        \<and> last_failed st' = Some now
        \<and> failed st' = (if cap \<le> nr_failures st' then True else failed st)
        \<and> (\<not> failed st \<longrightarrow> failed st' = (cap \<le> nr_failures st'))
        \<and> (failed st = (cap \<le> nr_failures st) \<and> nr_failures st \<noteq> - 1 \<longrightarrow>
             failed st' = (cap \<le> nr_failures st')))
   \<and> (\<exists>st'. stat_of (u_reset_failed_count s dir_path) dir_path = Some st'
        \<and> nr_failures st' = 0 \<and> failed st' = False \<and> last_failed st' = None)
   \<and> (nr_failures st = 0 \<longrightarrow>
        map_option failed (stat_of
          (and_then (and_then (u_inc_failed_count 3 t1 s dir_path)
             (\<lambda>s1. u_inc_failed_count 3 t2 s1 dir_path))
             (\<lambda>s2. u_inc_failed_count 3 t3 s2 dir_path)) dir_path) = Some True
      \<and> map_option nr_failures (stat_of
          (and_then (and_then (and_then (u_inc_failed_count 3 t1 s dir_path)
             (\<lambda>s1. u_inc_failed_count 3 t2 s1 dir_path))
             (\<lambda>s2. u_inc_failed_count 3 t3 s2 dir_path))
             (\<lambda>s3. u_reset_failed_count s3 dir_path)) dir_path) = Some 0
      \<and> map_option failed (stat_of
          (and_then (and_then (and_then (u_inc_failed_count 3 t1 s dir_path)
             (\<lambda>s1. u_inc_failed_count 3 t2 s1 dir_path))
             (\<lambda>s2. u_inc_failed_count 3 t3 s2 dir_path))
             (\<lambda>s3. u_reset_failed_count s3 dir_path)) dir_path) = Some False)"
proof (intro conjI impI)
  have inv: "failed st = (cap \<le> nr_failures st) \<and> nr_failures st \<noteq> - 1 \<longrightarrow>
      (if cap \<le> nr_failures st + 1 then True else failed st) = (cap \<le> nr_failures st + 1)"
    using cap_invariant_step [of "nr_failures st" cap] by auto
  show "\<exists>st'. stat_of (u_inc_failed_count cap now s dir_path) dir_path = Some st'
        \<and> nr_failures st' = nr_failures st + 1
        \<and> (nr_failures st \<noteq> - 1 \<longrightarrow> unat (nr_failures st') = unat (nr_failures st) + 1)
        \<and> last_failed st' = Some now
        \<and> failed st' = (if cap \<le> nr_failures st' then True else failed st)
        \<and> (\<not> failed st \<longrightarrow> failed st' = (cap \<le> nr_failures st'))
        \<and> (failed st = (cap \<le> nr_failures st) \<and> nr_failures st \<noteq> - 1 \<longrightarrow>
             failed st' = (cap \<le> nr_failures st'))"
    using assms inv by (simp add: inc_failed_stat unat_succ)
next
  show "\<exists>st'. stat_of (u_reset_failed_count s dir_path) dir_path = Some st'
        \<and> nr_failures st' = 0 \<and> failed st' = False \<and> last_failed st' = None"
    using assms by (simp add: reset_failed_stat)
next
  assume zero: "nr_failures st = 0"
  let ?three = "and_then (and_then (u_inc_failed_count 3 t1 s dir_path)
             (\<lambda>s1. u_inc_failed_count 3 t2 s1 dir_path))
             (\<lambda>s2. u_inc_failed_count 3 t3 s2 dir_path)"
  have three: "\<exists>s3 st3. ?three = Inr s3 \<and> m_snap_sync_stats s3 dir_path = Some st3
                 \<and> failed st3 \<and> nr_failures st3 = 3"
    using assms zero by (simp add: inc_failed_Inr and_then_def)
  then show "map_option failed (stat_of ?three dir_path) = Some True"
    by (auto simp: stat_of_def)
  from three obtain s3 st3 where
    s3: "?three = Inr s3" "m_snap_sync_stats s3 dir_path = Some st3"
    by blast
  then show "map_option nr_failures
      (stat_of (and_then ?three (\<lambda>s3. u_reset_failed_count s3 dir_path)) dir_path) = Some 0"
    by (simp add: and_then_def reset_failed_stat)
  from s3 show "map_option failed
      (stat_of (and_then ?three (\<lambda>s3. u_reset_failed_count s3 dir_path)) dir_path) = Some False"
    by (simp add: and_then_def reset_failed_stat)
qed

theorem C2_witness:
  "m_snap_sync_stats example_state ''/b'' = Some SnapSyncStat_new
 \<and> nr_failures SnapSyncStat_new = 0
 \<and> map_option failed (stat_of (u_inc_failed_count 3 50 example_state ''/b'') ''/b'')
      = Some False
 \<and> map_option failed (stat_of
      (and_then (and_then (u_inc_failed_count 3 51 example_state ''/b'')
         (\<lambda>s1. u_inc_failed_count 3 52 s1 ''/b''))
         (\<lambda>s2. u_inc_failed_count 3 53 s2 ''/b'')) ''/b'') = Some True
 \<and> map_option failed (stat_of
      (and_then (and_then (and_then (u_inc_failed_count 3 51 example_state ''/b'')
         (\<lambda>s1. u_inc_failed_count 3 52 s1 ''/b''))
         (\<lambda>s2. u_inc_failed_count 3 53 s2 ''/b''))
         (\<lambda>s3. u_reset_failed_count s3 ''/b'')) ''/b'') = Some False"
proof -
  have h: "m_snap_sync_stats example_state ''/b'' = Some SnapSyncStat_new"
    by (simp add: example_state_def)
  have z: "nr_failures SnapSyncStat_new = 0"
    by (simp add: SnapSyncStat_new_def)
  have f: "\<not> failed SnapSyncStat_new"
    by (simp add: SnapSyncStat_new_def)
  have c: "\<not> (3 :: uint64_t) \<le> 1"
    by (simp add: word_le_nat_alt)
  from C2_record_failure [OF h, of 3 50 51 52 53] h z f c show ?thesis
    by auto
qed

text \<open>
  C3 (as amended). On a directory with a statistics entry, \<open>set_last_synced_stat\<close>
  clears the currently-syncing snapshot, sets the last-synced snapshot to
  \<open>(snap_id, snap_name)\<close>, stores the duration and the current time, and adds one to the
  synced-snapshot count. It leaves the consecutive-failure counter, the last-failure time
  and the \<open>failed\<close> flag as they were; these are reset by \<open>_reset_failed_count\<close>, and the two
  calls in a row give the whole effect.
\<close>

theorem C3_set_last_synced_stat:
  assumes "m_snap_sync_stats s dir_path = Some st"
  shows
    "(\<exists>st'. stat_of (set_last_synced_stat now s dir_path snap_id snap_name duration) dir_path
          = Some st'
        \<and> nr_failures st' = nr_failures st \<and> failed st' = failed st
        \<and> last_failed st' = last_failed st
        \<and> current_syncing_snap st' = None
        \<and> last_synced_snap st' = Some (snap_id, snap_name)
        \<and> last_sync_duration st' = Some duration
        \<and> last_synced st' = now
        \<and> synced_snap_count st' = synced_snap_count st + 1
        \<and> deleted_snap_count st' = deleted_snap_count st
        \<and> renamed_snap_count st' = renamed_snap_count st)
   \<and> (\<exists>st''. stat_of (and_then
          (set_last_synced_stat now s dir_path snap_id snap_name duration)
          (\<lambda>s1. u_reset_failed_count s1 dir_path)) dir_path = Some st''
        \<and> nr_failures st'' = 0 \<and> failed st'' = False \<and> last_failed st'' = None
        \<and> current_syncing_snap st'' = None
        \<and> last_synced_snap st'' = Some (snap_id, snap_name)
        \<and> last_sync_duration st'' = Some duration
        \<and> last_synced st'' = now
        \<and> synced_snap_count st'' = synced_snap_count st + 1)"
  using assms
  by (simp add: set_last_synced_stat_Inr stat_of_def and_then_def u_reset_failed_count_def
      at_sync_stat_def)

theorem C3_witness:
  "m_snap_sync_stats example_state ''/a'' = Some example_stat
 \<and> stat_of (set_last_synced_stat 50 example_state ''/a'' 8 ''snap8'' 99) ''/a''
     = Some (example_stat\<lparr>last_synced_snap := Some (8, ''snap8''),
          current_syncing_snap := None, last_synced := 50, last_sync_duration := Some 99,
          synced_snap_count := 1\<rparr>)"
proof -
  have h: "m_snap_sync_stats example_state ''/a'' = Some example_stat"
    by (simp add: example_state_def)
  from C3_set_last_synced_stat [OF h, of 50 8 "''snap8''" 99] h show ?thesis
    by (simp add: set_last_synced_stat_Inr stat_of_def example_stat_def SnapSyncStat_new_def)
qed

text \<open>
  The claim as it was written fails: on a directory with two recorded failures and
  \<open>failed = true\<close>, \<open>set_last_synced_stat\<close> leaves the counter at 2 and the flag true.
\<close>

theorem C3_counterexample:
  "map_option nr_failures
     (stat_of (set_last_synced_stat 50 example_state ''/a'' 8 ''snap8'' 99) ''/a'') = Some 2
   \<and> map_option failed
     (stat_of (set_last_synced_stat 50 example_state ''/a'' 8 ''snap8'' 99) ''/a'') = Some True
   \<and> \<not> (map_option nr_failures
     (stat_of (set_last_synced_stat 50 example_state ''/a'' 8 ''snap8'' 99) ''/a'') = Some 0
     \<and> map_option failed
     (stat_of (set_last_synced_stat 50 example_state ''/a'' 8 ''snap8'' 99) ''/a'') = Some False)"
  by (simp add: set_last_synced_stat_def u_set_last_synced_snap_def at_sync_stat_def
      stat_of_def example_state_def example_stat_def SnapSyncStat_new_def)

text \<open>
  C9. Each statistics mutator, called on \<open>dir_path\<close>, changes the entry of \<open>dir_path\<close> in
  \<open>m_snap_sync_stats\<close> and nothing else: the entry of every other directory is the same
  before and after, the table has the same keys, and \<open>m_directories\<close>, \<open>m_registered\<close> and
  the remaining members are unchanged. (A call that throws has written nothing.)
\<close>

theorem C9_frame:
  assumes "call_stat_op opr s dir_path = Inr s'"
  shows "(\<forall>other. other \<noteq> dir_path \<longrightarrow>
            m_snap_sync_stats s' other = m_snap_sync_stats s other)
       \<and> m_directories s' = m_directories s
       \<and> m_registered s' = m_registered s
       \<and> dom (m_snap_sync_stats s') = dom (m_snap_sync_stats s)
       \<and> m_stopping s' = m_stopping s \<and> m_fs_mirror s' = m_fs_mirror s
       \<and> thread_heap s' = thread_heap s"
proof -
  from call_stat_op_shape [OF assms] obtain st st' where
    st: "m_snap_sync_stats s dir_path = Some st" and
    s': "s' = s\<lparr>m_snap_sync_stats := (m_snap_sync_stats s)(dir_path \<mapsto> st')\<rparr>"
    by blast
  from st have "insert dir_path (dom (m_snap_sync_stats s)) = dom (m_snap_sync_stats s)"
    by (simp add: insert_absorb domI)
  with s' show ?thesis
    by simp
qed

theorem C9_witness:
  "call_stat_op (Set_last_synced_stat 50 8 ''snap8'' 99) example_state ''/a'' =
     Inr (example_state\<lparr>m_snap_sync_stats := (m_snap_sync_stats example_state)(''/a'' \<mapsto>
        example_stat\<lparr>last_synced_snap := Some (8, ''snap8''), current_syncing_snap := None,
           last_synced := 50, last_sync_duration := Some 99,
           synced_snap_count := synced_snap_count example_stat + 1\<rparr>)\<rparr>)
 \<and> m_snap_sync_stats (example_state\<lparr>m_snap_sync_stats :=
        (m_snap_sync_stats example_state)(''/a'' \<mapsto>
        example_stat\<lparr>last_synced_snap := Some (8, ''snap8''), current_syncing_snap := None,
           last_synced := 50, last_sync_duration := Some 99,
           synced_snap_count := synced_snap_count example_stat + 1\<rparr>)\<rparr>) ''/b''
     = m_snap_sync_stats example_state ''/b''"
proof -
  have h: "m_snap_sync_stats example_state ''/a'' = Some example_stat"
    by (simp add: example_state_def)
  have c: "call_stat_op (Set_last_synced_stat 50 8 ''snap8'' 99) example_state ''/a'' =
     Inr (example_state\<lparr>m_snap_sync_stats := (m_snap_sync_stats example_state)(''/a'' \<mapsto>
        example_stat\<lparr>last_synced_snap := Some (8, ''snap8''), current_syncing_snap := None,
           last_synced := 50, last_sync_duration := Some 99,
           synced_snap_count := synced_snap_count example_stat + 1\<rparr>)\<rparr>)"
    by (simp add: set_last_synced_stat_Inr [OF h])
  from C9_frame [OF c] c show ?thesis
    by simp
qed

subsection \<open>SyncEntry\<close>

text \<open>
  C7. \<open>is_directory()\<close> is a function of the type bits of the stored mode alone: it is
  true exactly when the mode masked with \<open>S_IFMT\<close> is \<open>S_IFDIR\<close>; the path and the traversal
  handle of the entry do not enter, so two entries with the same metadata agree,
  whichever constructor built them.
\<close>

theorem C7_is_directory:
  "is_directory e = (stx_mode (stx e) AND S_IFMT = S_IFDIR)
 \<and> is_directory (e\<lparr>epath := p, dirp := d\<rparr>) = is_directory e
 \<and> (stx x = stx y \<longrightarrow> is_directory x = is_directory y)
 \<and> is_directory (SyncEntry_path_stx p (stx e) d) = is_directory e
 \<and> is_directory (SyncEntry_path_dirp_stx p d (stx e)) = is_directory e"
  by (simp add: is_directory_def S_ISDIR_def SyncEntry_path_stx_def
      SyncEntry_path_dirp_stx_def)

theorem C7_witness:
  "is_directory (example_entry example_dir_mode)
 \<and> \<not> is_directory (example_entry example_file_mode)
 \<and> \<not> is_directory (example_entry example_socket_mode)
 \<and> is_directory ((example_entry example_dir_mode)\<lparr>epath := ''elsewhere'', dirp := 77\<rparr>)"
  using
    C7_is_directory [where e = "example_entry example_dir_mode" and p = "''elsewhere''"
      and d = 77 and x = "example_entry example_dir_mode"
      and y = "example_entry example_dir_mode"]
    C7_is_directory [where e = "example_entry example_file_mode" and p = "''elsewhere''"
      and d = 77 and x = "example_entry example_dir_mode"
      and y = "example_entry example_dir_mode"]
    C7_is_directory [where e = "example_entry example_socket_mode" and p = "''elsewhere''"
      and d = 77 and x = "example_entry example_dir_mode"
      and y = "example_entry example_dir_mode"]
  by (simp add: example_entry_def example_dir_mode_def example_file_mode_def
      example_socket_mode_def S_IFMT_def S_IFDIR_def)

subsection \<open>Cancellation\<close>

lemma exec_keeps_canceled:
  "is_canceled (thread_heap s t) \<Longrightarrow> is_canceled (thread_heap (exec opn s) t)"
proof (cases opn)
  case (Stat_op opr d)
  show "is_canceled (thread_heap s t) \<Longrightarrow> is_canceled (thread_heap (exec opn s) t)"
  proof (cases "call_stat_op opr s d")
    case (Inl e)
    assume "is_canceled (thread_heap s t)"
    with Stat_op Inl show ?thesis by simp
  next
    case (Inr s')
    assume c: "is_canceled (thread_heap s t)"
    from call_stat_op_shape [OF Inr] have "thread_heap s' = thread_heap s"
      by auto
    with Stat_op Inr c show ?thesis by simp
  qed
qed (simp_all add: cancel_at_def cancel_def is_canceled_def)

lemma run_keeps_canceled:
  "is_canceled (thread_heap s t) \<Longrightarrow> is_canceled (thread_heap (run ops s) t)"
  by (induction ops arbitrary: s) (simp_all add: exec_keeps_canceled)

text \<open>
  C10. Cancellation is one-way. After \<open>cancel()\<close> on a thread, \<open>is_canceled()\<close> is true;
  no step of the program turns the flag of a canceled thread back to false, so the thread
  is still canceled after any sequence of steps; and then every poll of \<open>should_backoff\<close>
  for a directory registered to that thread, with the session not blocklisted and the
  replayer not stopping, returns true with \<open>-ECANCELED\<close>.
\<close>

theorem C10_cancel_one_way:
  "is_canceled (cancel th)
 \<and> is_canceled (thread_heap (cancel_at s t) t)
 \<and> (is_canceled (thread_heap s t) \<longrightarrow> is_canceled (thread_heap (exec opn s) t))
 \<and> is_canceled (thread_heap (run ops (cancel_at s t)) t)
 \<and> (\<not> is_blocklisted (m_fs_mirror (run ops (cancel_at s t)))
      \<and> \<not> is_stopping (run ops (cancel_at s t))
      \<and> m_registered (run ops (cancel_at s t)) dir_path = Some dr \<and> replayer dr = t \<longrightarrow>
      snd (should_backoff (run ops (cancel_at s t)) dir_path) = Inr (True, - ECANCELED))"
proof -
  have a: "is_canceled (thread_heap (cancel_at s t) t)"
    by (simp add: cancel_at_def cancel_def is_canceled_def)
  then have b: "is_canceled (thread_heap (run ops (cancel_at s t)) t)"
    by (rule run_keeps_canceled)
  have c: "is_canceled (cancel th)"
    by (simp add: cancel_def is_canceled_def)
  from a b c show ?thesis
    by (auto simp: exec_keeps_canceled should_backoff_def)
qed

theorem C10_witness:
  "is_canceled (thread_heap (run example_ops (cancel_at example_state 1)) 1)
 \<and> m_registered (run example_ops (cancel_at example_state 1)) ''/c''
     = Some \<lparr>fd = 9, replayer = 1\<rparr>
 \<and> snd (should_backoff (run example_ops (cancel_at example_state 1)) ''/c'')
     = Inr (True, - 125)
 \<and> snd (should_backoff (run example_ops (cancel_at example_state 1)) ''/a'')
     = Inr (True, - 125)
 \<and> snd (should_backoff (run example_ops (cancel_at example_state 1)) ''/b'')
     = Inr (False, 0)"
proof -
  let ?s = "run example_ops (cancel_at example_state 1)"
  have r: "m_registered ?s = (m_registered example_state)(''/c'' \<mapsto> \<lparr>fd = 9, replayer = 1\<rparr>)"
    and f: "\<not> is_blocklisted (m_fs_mirror ?s)" and st: "\<not> is_stopping ?s"
    and h2: "\<not> is_canceled (thread_heap ?s 2)"
    by (simp_all add: example_ops_def example_register_def example_state_def cancel_at_def
        cancel_def is_canceled_def is_stopping_def inc_deleted_snap_def
        u_reset_failed_count_def at_sync_stat_def SnapshotReplayerThread_new_def)
  have c: "m_registered ?s ''/c'' = Some \<lparr>fd = 9, replayer = 1\<rparr>"
    and a: "m_registered ?s ''/a'' = Some \<lparr>fd = 3, replayer = 1\<rparr>"
    and b: "m_registered ?s ''/b'' = Some \<lparr>fd = 4, replayer = 2\<rparr>"
    unfolding r by (simp_all add: example_state_def)
  from C10_cancel_one_way [of SnapshotReplayerThread_new example_state 1
      "Cancel 1" example_ops "''/c''" "\<lparr>fd = 9, replayer = 1\<rparr>"]
    C10_cancel_one_way [of SnapshotReplayerThread_new example_state 1
      "Cancel 1" example_ops "''/a''" "\<lparr>fd = 3, replayer = 1\<rparr>"]
    f st c a b h2
  show ?thesis
    by (simp add: should_backoff_def ECANCELED_def)
qed

subsection \<open>Snapshot diff and replay order\<close>



lemma ordered_distinct: "ordered_snap_map m \<Longrightarrow> distinct (map fst m)"
  unfolding ordered_snap_map_def by (simp add: strict_sorted_iff)























text \<open>
  C6. The diff puts in the delete set the remote names whose identifier is not in the
  local map, and in the rename set the pairs (remote name, local name) of the identifiers
  that are in both maps with different names. For the local map \<open>{1:"a", 2:"b"}\<close> and the
  remote map \<open>{1:"a", 2:"old_b"}\<close> the rename set is \<open>{(old_b, b)}\<close> and the delete set is
  empty; for the local map \<open>{1:"a"}\<close> and the remote map \<open>{1:"a", 2:"b"}\<close> the delete set is
  \<open>{"b"}\<close>.
\<close>

theorem C6_snap_diff:
  "(name \<in> snaps_deleted local_map remote_map \<longleftrightarrow>
      (\<exists>snap_id. (snap_id, name) \<in> set remote_map \<and> snap_id \<notin> fst ` set local_map))
 \<and> (ordered_snap_map local_map \<longrightarrow>
      ((old_name, new_name) \<in> snaps_renamed local_map remote_map \<longleftrightarrow>
        (\<exists>snap_id. (snap_id, old_name) \<in> set remote_map \<and> (snap_id, new_name) \<in> set local_map
           \<and> new_name \<noteq> old_name)))
 \<and> snaps_renamed [(1, ''a''), (2, ''b'')] [(1, ''a''), (2, ''old_b'')] = {(''old_b'', ''b'')}
 \<and> snaps_deleted [(1, ''a''), (2, ''b'')] [(1, ''a''), (2, ''old_b'')] = {}
 \<and> snaps_deleted [(1, ''a'')] [(1, ''a''), (2, ''b'')] = {''b''}"
proof (intro conjI impI)
  show "name \<in> snaps_deleted local_map remote_map \<longleftrightarrow>
      (\<exists>snap_id. (snap_id, name) \<in> set remote_map \<and> snap_id \<notin> fst ` set local_map)"
    by (force simp: snaps_deleted_def map_of_eq_None_iff)
next
  assume "ordered_snap_map local_map"
  then have dist: "distinct (map fst local_map)"
    by (rule ordered_distinct)
  show "(old_name, new_name) \<in> snaps_renamed local_map remote_map \<longleftrightarrow>
        (\<exists>snap_id. (snap_id, old_name) \<in> set remote_map \<and> (snap_id, new_name) \<in> set local_map
           \<and> new_name \<noteq> old_name)"
    using dist by (fastforce simp: snaps_renamed_def split: option.splits if_splits)
next
  show "snaps_renamed [(1, ''a''), (2, ''b'')] [(1, ''a''), (2, ''old_b'')] = {(''old_b'', ''b'')}"
    by (simp add: snaps_renamed_def)
  show "snaps_deleted [(1, ''a''), (2, ''b'')] [(1, ''a''), (2, ''old_b'')] = {}"
    by (simp add: snaps_deleted_def)
  show "snaps_deleted [(1, ''a'')] [(1, ''a''), (2, ''b'')] = {''b''}"
    by (simp add: snaps_deleted_def)
qed

theorem C6_witness:
  "ordered_snap_map [(1, ''a''), (2, ''b'')]
 \<and> (''old_b'', ''b'') \<in> snaps_renamed [(1, ''a''), (2, ''b'')] [(1, ''a''), (2, ''old_b'')]
 \<and> (''a'', ''a'') \<notin> snaps_renamed [(1, ''a''), (2, ''b'')] [(1, ''a''), (2, ''old_b'')]
 \<and> ''b'' \<in> snaps_deleted [(1, ''a'')] [(1, ''a''), (2, ''b'')]"
proof -
  have o: "ordered_snap_map [(1, ''a''), (2, ''b'')]"
    by (simp add: ordered_snap_map_def)
  from C6_snap_diff [of "''b''" "[(1, ''a'')]" "[(1, ''a''), (2, ''b'')]" "''old_b''" "''b''"]
    C6_snap_diff [of "''b''" "[(1, ''a''), (2, ''b'')]" "[(1, ''a''), (2, ''old_b'')]"
      "''old_b''" "''b''"]
    C6_snap_diff [of "''b''" "[(1, ''a''), (2, ''b'')]" "[(1, ''a''), (2, ''old_b'')]"
      "''a''" "''a''"]
    o
  show ?thesis
    by auto
qed

end
